theory Spec2Isabelle
  imports Main
begin

section \<open>The COS storage driver (registry/storage/driver/cos/cos.go)\<close>

text \<open>
  The driver adapts a bucket-style object store to the registry's storage-driver contract.
  The store client (the SDK) is an external collaborator: it is modelled as a record of
  operations over an abstract store state \<open>'s\<close>, so that every theorem about the driver
  holds for every behaviour of the store. Go strings and byte slices are \<open>char list\<close>
  (a \<open>char\<close> is one byte), Go's \<open>int\<close> and \<open>int64\<close> are \<open>int\<close>, with the wrap-around
  written out where the driver does arithmetic on sizes.
\<close>

subsection \<open>Constants\<close>

definition listMax :: int where
  "listMax = 1000"

definition minChunkSize :: int where
  "minChunkSize = 2 ^ 20"

definition defaultChunkSize :: int where
  "defaultChunkSize = 2 * minChunkSize"

definition multipartCopyMaxConcurrency :: int where
  "multipartCopyMaxConcurrency = 10"

definition multipartCopyThresholdSize :: int where
  "multipartCopyThresholdSize = 128 * 2 ^ 20"

definition multipartCopyChunkSize :: int where
  "multipartCopyChunkSize = 128 * 2 ^ 20"

text \<open>The layout \<open>time.RFC3339Nano\<close> of Go's standard library.\<close>

definition RFC3339Nano :: string where
  "RFC3339Nano = ''2006-01-02T15:04:05.999999999Z07:00''"

subsection \<open>Errors and results\<close>

text \<open>
  \<open>PathNotFoundError\<close> is \<open>storagedriver.PathNotFoundError\<close>, \<open>Errorf\<close> is an error made
  by \<open>fmt.Errorf\<close>, and \<open>Remote\<close> is an error value that a collaborator (the store client,
  a response body, \<open>time.Parse\<close>) returned. Go's \<open>nil\<close> error is \<open>None\<close> of
  \<open>error option\<close>. A call that panics has the outcome \<open>Panics\<close>.
\<close>

type_synonym bytes = "char list"

datatype error = PathNotFoundError string | Errorf string | Remote string

datatype 'a go = Panics | Returns 'a

subsection \<open>The store client\<close>

text \<open>\<open>cos.Object\<close>: an entry of a listing, or a part of a multipart upload.\<close>

record Object =
  Key :: string
  ETag :: string
  Size :: int
  PartNumber :: int
  LastModified :: string

definition Object0 :: Object where
  "Object0 = \<lparr>Key = [], ETag = [], Size = 0, PartNumber = 0, LastModified = []\<rparr>"

record BucketGetOptions =
  Prefix :: string
  Delimiter :: string
  Marker :: string
  MaxKeys :: int

record BucketGetResult =
  Contents :: "Object list"
  CommonPrefixes :: "string list"
  IsTruncated :: bool
  NextMarker :: string

text \<open>An entry of \<open>ListMultipartUploads\<close>, and the result of \<open>InitiateMultipartUpload\<close>.\<close>

record Upload =
  upKey :: string
  upUploadID :: string

text \<open>
  A response body: the bytes \<open>ioutil.ReadAll\<close> reads from it, and the error the read ends
  with (\<open>None\<close> at a clean end of the stream).
\<close>

record Body =
  readBytes :: bytes
  readErr :: "error option"

text \<open>
  The range header of \<open>UploadPartCopy\<close> (\<open>cos.CopyPartHeaderOptions\<close>): the source URL and
  the byte range.
\<close>

record CopyPartHeaderOptions =
  XCosCopySource :: string
  XCosCopySourceRange :: string

text \<open>The options \<open>copy\<close> initiates its multipart upload with.\<close>

record InitiateMultipartUploadOptions =
  XCosACL :: string
  ContentType :: string

text \<open>
  A Go call returning a pointer and an error: on success the pointer is valid; on failure
  the pointer may be \<open>nil\<close> (\<open>None\<close>) or not, and only the code that reads it before the
  error check can tell.
\<close>

datatype 'a ptr_result = Ok 'a | Fail "'a option" error

text \<open>
  The operations of \<open>d.Client.Bucket\<close> and \<open>d.Client.Object\<close> that the driver calls. Each
  takes the store state and returns the next one. A result \<open>error + 'a\<close> is a call whose
  value the driver reads only after it has checked the error.
\<close>

record 's Client =
  Host :: string
  BucketGet :: "BucketGetOptions \<Rightarrow> 's \<Rightarrow> (error + BucketGetResult) \<times> 's"
  ListMultipartUploads :: "string \<Rightarrow> 's \<Rightarrow> (error + Upload list) \<times> 's"
  ObjectGet :: "string \<Rightarrow> string option \<Rightarrow> 's \<Rightarrow> (error + Body) \<times> 's"
  ObjectDelete :: "string \<Rightarrow> 's \<Rightarrow> error option \<times> 's"
  DeleteMulti :: "Object list \<Rightarrow> 's \<Rightarrow> error option \<times> 's"
  ObjectCopy :: "string \<Rightarrow> string \<Rightarrow> 's \<Rightarrow> error option \<times> 's"
  InitiateMultipartUpload ::
    "string \<Rightarrow> InitiateMultipartUploadOptions option \<Rightarrow> 's \<Rightarrow> Upload ptr_result \<times> 's"
  ListParts :: "string \<Rightarrow> string \<Rightarrow> 's \<Rightarrow> (error + Object list) \<times> 's"
  UploadPart :: "string \<Rightarrow> string \<Rightarrow> int \<Rightarrow> bytes \<Rightarrow> 's \<Rightarrow> (error + string) \<times> 's"
  UploadPartCopy ::
    "string \<Rightarrow> string \<Rightarrow> string \<Rightarrow> int \<Rightarrow> CopyPartHeaderOptions option \<Rightarrow> 's
       \<Rightarrow> (error + Object) \<times> 's"
  CompleteMultipartUpload :: "string \<Rightarrow> string \<Rightarrow> Object list \<Rightarrow> 's \<Rightarrow> error option \<times> 's"
  AbortMultipartUpload :: "string \<Rightarrow> string \<Rightarrow> 's \<Rightarrow> error option \<times> 's"

subsection \<open>The driver\<close>

record 's driver =
  Client :: "'s Client"
  SecretID :: string
  SecretKey :: string
  RootDirectory :: string
  ChunkSize :: int

record DriverParameters =
  pSecretID :: string
  pSecretKey :: string
  pBucket :: string
  pRegion :: string
  pSecure :: bool
  pChunkSize :: int
  pRootDirectory :: string

text \<open>
  \<open>New\<close>: the client is built from the bucket, the region and the credentials by the
  SDK, so it is a parameter here; the root directory is the empty string whatever the
  parameters say.
\<close>

definition New :: "'s Client \<Rightarrow> DriverParameters \<Rightarrow> 's driver" where
  "New client params =
     \<lparr>Client = client,
      SecretID = pSecretID params,
      SecretKey = pSecretKey params,
      RootDirectory = [],
      ChunkSize = pChunkSize params\<rparr>"

text \<open>
  \<open>strings.TrimRight\<close> and \<open>strings.TrimLeft\<close> remove every trailing (leading) character
  that is in the cutset.
\<close>

definition TrimLeft :: "string \<Rightarrow> string \<Rightarrow> string" where
  "TrimLeft s cutset = dropWhile (\<lambda>c. c \<in> set cutset) s"

definition TrimRight :: "string \<Rightarrow> string \<Rightarrow> string" where
  "TrimRight s cutset = rev (dropWhile (\<lambda>c. c \<in> set cutset) (rev s))"

definition cosPath :: "'s driver \<Rightarrow> string \<Rightarrow> string" where
  "cosPath d path = TrimLeft (TrimRight (RootDirectory d) ''/'' @ path) ''/''"

subsection \<open>Stat\<close>

record 't FileInfoFields =
  fiPath :: string
  fiSize :: int
  fiModTime :: "'t option"
  fiIsDir :: bool

text \<open>
  \<open>Stat\<close>. \<open>time.Parse\<close> is the parameter \<open>time_Parse\<close> (layout, then the text); the zero
  \<open>time.Time\<close> of a fresh \<open>FileInfoFields\<close> is \<open>None\<close>.
\<close>

definition Stat ::
  "(string \<Rightarrow> string \<Rightarrow> error + 't) \<Rightarrow> 's driver \<Rightarrow> string \<Rightarrow> 's
     \<Rightarrow> (error + 't FileInfoFields) \<times> 's" where
  "Stat time_Parse d path s =
     (let opt = \<lparr>Prefix = cosPath d path, Delimiter = [], Marker = [], MaxKeys = 1\<rparr> in
      case BucketGet (Client d) opt s of
        (Inl err, s') \<Rightarrow> (Inl err, s')
      | (Inr listResponse, s') \<Rightarrow>
          (let fi = \<lparr>fiPath = path, fiSize = 0, fiModTime = None, fiIsDir = False\<rparr> in
           if length (Contents listResponse) = 1 then
             (if Key (Contents listResponse ! 0) \<noteq> cosPath d path then
                (Inr (fi\<lparr>fiIsDir := True\<rparr>), s')
              else
                (case time_Parse RFC3339Nano (LastModified (Contents listResponse ! 0)) of
                   Inl err \<Rightarrow> (Inl err, s')
                 | Inr timestamp \<Rightarrow>
                     (Inr (fi\<lparr>fiIsDir := False,
                               fiSize := Size (Contents listResponse ! 0),
                               fiModTime := Some timestamp\<rparr>), s')))
           else if length (CommonPrefixes listResponse) = 1 then
             (Inr (fi\<lparr>fiIsDir := True\<rparr>), s')
           else (Inl (PathNotFoundError path), s')))"


subsection \<open>GetContent\<close>

definition getContentType :: string where
  "getContentType = ''application/octet-stream''"

text \<open>
  \<open>GetContent\<close>: \<open>bs, _ := ioutil.ReadAll(resp.Body)\<close> keeps the bytes read and drops the
  error of the read.
\<close>

definition GetContent :: "'s driver \<Rightarrow> string \<Rightarrow> 's \<Rightarrow> (error + bytes) \<times> 's" where
  "GetContent d path s =
     (case ObjectGet (Client d) (cosPath d path) None s of
        (Inl err, s1) \<Rightarrow> (Inl err, s1)
      | (Inr resp, s1) \<Rightarrow> (Inr (readBytes resp), s1))"

subsection \<open>copy and Move\<close>

text \<open>
  \<open>int64\<close> arithmetic wraps around; \<open>quo\<close> is Go's integer division, which truncates
  towards zero.
\<close>

definition int64 :: "int \<Rightarrow> int" where
  "int64 x = (x + 2 ^ 63) mod 2 ^ 64 - 2 ^ 63"

definition quo :: "int \<Rightarrow> int \<Rightarrow> int" where
  "quo a b = sgn a * sgn b * (\<bar>a\<bar> div \<bar>b\<bar>)"

text \<open>\<open>%d\<close> of \<open>fmt.Sprintf\<close>: the decimal digits, after a minus sign below zero.\<close>

function digits :: "int \<Rightarrow> string" where
  "digits n =
     (if n < 10 then [char_of (48 + n)] else digits (n div 10) @ [char_of (48 + n mod 10)])"
  by pat_completeness auto
termination
  by (relation "measure nat") auto

definition itoa :: "int \<Rightarrow> string" where
  "itoa i = (if i < 0 then CHR ''-'' # digits (- i) else digits i)"

text \<open>The number of parts of a multipart copy, and the byte range of part \<open>i\<close>.\<close>

definition numParts :: "int \<Rightarrow> int" where
  "numParts fileSize =
     quo (int64 (int64 (fileSize + multipartCopyChunkSize) - 1)) multipartCopyChunkSize"

definition firstByte :: "int \<Rightarrow> int" where
  "firstByte i = int64 (i * multipartCopyChunkSize)"

definition lastByte :: "int \<Rightarrow> int \<Rightarrow> int" where
  "lastByte fileSize i =
     (let lastByte0 = int64 (int64 (firstByte i + multipartCopyChunkSize) - 1) in
      if lastByte0 \<ge> fileSize then int64 (fileSize - 1) else lastByte0)"

text \<open>
  The part copies. The source starts one goroutine for each part, at most
  \<open>multipartCopyMaxConcurrency\<close> of them inside the store at a time, and every one of them
  sends its result to \<open>errChan\<close>, whose capacity is the number of parts. The model runs
  them in the order of their index, which is one of the schedules; which requests are
  made does not depend on the schedule.
\<close>

fun copyParts ::
  "'s driver \<Rightarrow> string \<Rightarrow> string \<Rightarrow> string \<Rightarrow> int \<Rightarrow> nat list \<Rightarrow> 's
     \<Rightarrow> (error + Object) list \<times> 's" where
  "copyParts d sourcePath destPath upID fileSize [] s = ([], s)"
| "copyParts d sourcePath destPath upID fileSize (i # rest) s =
     (case UploadPartCopy (Client d) (cosPath d destPath) (cosPath d sourcePath) upID
             (int64 (int i + 1))
             (Some \<lparr>XCosCopySource = Host (Client d) @ ''/'' @ cosPath d sourcePath,
                    XCosCopySourceRange =
                      ''bytes='' @ itoa (firstByte (int i)) @ ''-''
                        @ itoa (lastByte fileSize (int i))\<rparr>) s of
        (r, s1) \<Rightarrow>
          (case copyParts d sourcePath destPath upID fileSize rest s1 of
             (rs, s2) \<Rightarrow> (r # rs, s2)))"

text \<open>The first error received from \<open>errChan\<close>, and the slot a part copy fills.\<close>

fun firstError :: "(error + 'a) list \<Rightarrow> error option" where
  "firstError [] = None"
| "firstError (Inl err # rs) = Some err"
| "firstError (Inr v # rs) = firstError rs"

fun partSlot :: "nat \<Rightarrow> error + Object \<Rightarrow> Object" where
  "partSlot i (Inl err) = Object0"
| "partSlot i (Inr uploadResp) =
     Object0\<lparr>ETag := ETag uploadResp, PartNumber := int64 (int i + 1)\<rparr>"

text \<open>
  \<open>copy\<close>. \<open>make([]cos.Object, numParts)\<close> panics when \<open>numParts\<close> is negative.
\<close>

definition copy ::
  "(string \<Rightarrow> string \<Rightarrow> error + 't) \<Rightarrow> 's driver \<Rightarrow> string \<Rightarrow> string \<Rightarrow> 's
     \<Rightarrow> error option go \<times> 's" where
  "copy time_Parse d sourcePath destPath s =
     (case Stat time_Parse d sourcePath s of
        (Inl err, s1) \<Rightarrow> (Returns (Some err), s1)
      | (Inr fileInfo, s1) \<Rightarrow>
          (let soruceURL = Host (Client d) @ ''/'' @ sourcePath in
           if fiSize fileInfo \<le> multipartCopyThresholdSize then
             (case ObjectCopy (Client d) (cosPath d destPath) soruceURL s1 of
                (err, s2) \<Rightarrow> (Returns err, s2))
           else
             (case InitiateMultipartUpload (Client d) (cosPath d destPath)
                     (Some \<lparr>XCosACL = ''private'', ContentType = getContentType\<rparr>) s1 of
                (Fail createResp err, s2) \<Rightarrow> (Returns (Some err), s2)
              | (Ok createResp, s2) \<Rightarrow>
                  (if numParts (fiSize fileInfo) < 0 then (Panics, s2)
                   else
                     (let idx = [0 ..< nat (numParts (fiSize fileInfo))] in
                      case copyParts d sourcePath destPath (upUploadID createResp)
                             (fiSize fileInfo) idx s2 of
                        (results, s3) \<Rightarrow>
                          (case firstError results of
                             Some err \<Rightarrow>
                               (case AbortMultipartUpload (Client d) (cosPath d destPath)
                                       (upUploadID createResp) s3 of
                                  (ignored, s4) \<Rightarrow> (Returns (Some err), s4))
                           | None \<Rightarrow>
                               (case CompleteMultipartUpload (Client d) (cosPath d destPath)
                                       (upUploadID createResp)
                                       (map2 partSlot idx results) s3 of
                                  (err, s4) \<Rightarrow> (Returns err, s4))))))))"

text \<open>\<open>Move\<close>: when \<open>copy\<close> returns an error, \<open>Move\<close> returns \<open>nil\<close>.\<close>

definition Move ::
  "(string \<Rightarrow> string \<Rightarrow> error + 't) \<Rightarrow> 's driver \<Rightarrow> string \<Rightarrow> string \<Rightarrow> 's
     \<Rightarrow> error option go \<times> 's" where
  "Move time_Parse d sourcePath destPath s =
     (case copy time_Parse d (cosPath d sourcePath) (cosPath d destPath) s of
        (Panics, s1) \<Rightarrow> (Panics, s1)
      | (Returns (Some err), s1) \<Rightarrow> (Returns None, s1)
      | (Returns None, s1) \<Rightarrow>
          (case ObjectDelete (Client d) (cosPath d sourcePath) s1 of
             (err, s2) \<Rightarrow> (Returns err, s2)))"

subsection \<open>Delete\<close>

text \<open>
  The inner loop of \<open>Delete\<close> over one page of keys: it returns \<open>numOssObjects\<close> and the
  array \<open>cosObjects\<close>. Writing \<open>cosObjects[index]\<close> beyond the end of the array panics.
\<close>

fun scanPage :: "string \<Rightarrow> Object list \<Rightarrow> nat \<Rightarrow> Object list \<Rightarrow> (nat \<times> Object list) go" where
  "scanPage pfx [] index cosObjects = Returns (index, cosObjects)"
| "scanPage pfx (k # rest) index cosObjects =
     (if length (Key k) > length pfx \<and> Key k ! length pfx \<noteq> CHR ''/'' then
        Returns (index, cosObjects)
      else if index \<ge> length cosObjects then Panics
      else scanPage pfx rest (Suc index)
             (cosObjects[index := (cosObjects ! index)\<lparr>Key := Key k\<rparr>]))"

text \<open>
  The outer loop of \<open>Delete\<close> lists the prefix again after every bulk delete, until a
  listing comes back empty; it need not end, so not returning is \<open>None\<close>.
\<close>

partial_function (option) deleteLoop ::
  "'s driver \<Rightarrow> string \<Rightarrow> Object list \<Rightarrow> Object list \<Rightarrow> 's \<Rightarrow> (error option go \<times> 's) option" where
  "deleteLoop d path contents cosObjects s =
     (if length contents > 0 then
        (case scanPage (cosPath d path) contents 0 cosObjects of
           Panics \<Rightarrow> Some (Panics, s)
         | Returns (numOssObjects, cosObjects1) \<Rightarrow>
             (case DeleteMulti (Client d) (take numOssObjects cosObjects1) s of
                (Some err, s1) \<Rightarrow> Some (Returns None, s1)
              | (None, s1) \<Rightarrow>
                  (if numOssObjects < length contents then Some (Returns None, s1)
                   else
                     (case BucketGet (Client d)
                             \<lparr>Prefix = cosPath d path, Delimiter = [], Marker = [],
                              MaxKeys = listMax\<rparr> s1 of
                        (Inl err, s2) \<Rightarrow> Some (Returns (Some err), s2)
                      | (Inr listResponse, s2) \<Rightarrow>
                          deleteLoop d path (Contents listResponse) cosObjects1 s2))))
      else Some (Returns None, s))"

definition Delete :: "'s driver \<Rightarrow> string \<Rightarrow> 's \<Rightarrow> (error option go \<times> 's) option" where
  "Delete d path s =
     (case BucketGet (Client d)
             \<lparr>Prefix = cosPath d path, Delimiter = [], Marker = [], MaxKeys = listMax\<rparr> s of
        (Inl err, s1) \<Rightarrow> Some (Returns (Some (PathNotFoundError path)), s1)
      | (Inr listResponse, s1) \<Rightarrow>
          (if length (Contents listResponse) = 0 then
             Some (Returns (Some (PathNotFoundError path)), s1)
           else deleteLoop d path (Contents listResponse)
                  (replicate (nat listMax) Object0) s1))"


subsection \<open>The writer\<close>

record 's writer =
  driver :: "'s driver"
  key :: string
  uploadID :: string
  parts :: "Object list"
  size_w :: int
  readyPart :: bytes
  pendingPart :: bytes
  closed :: bool
  committed :: bool
  cancelled :: bool

definition newWriter :: "'s driver \<Rightarrow> string \<Rightarrow> string \<Rightarrow> Object list \<Rightarrow> 's writer" where
  "newWriter d key' uploadID' parts' =
     \<lparr>driver = d, key = key', uploadID = uploadID', parts = parts',
      size_w = foldl (\<lambda>sz part. int64 (sz + Size part)) 0 parts',
      readyPart = [], pendingPart = [],
      closed = False, committed = False, cancelled = False\<rparr>"

text \<open>
  \<open>Writer\<close>. Without \<open>append\<close>, \<open>multi.UploadID\<close> is read before the error is looked at: on
  a \<open>nil\<close> result that is a nil-pointer dereference. With \<open>append\<close>, the first upload
  listed under the key is resumed.
\<close>

definition Writer ::
  "'s driver \<Rightarrow> string \<Rightarrow> bool \<Rightarrow> 's \<Rightarrow> (error + 's writer) go \<times> 's" where
  "Writer d path append' s =
     (let key' = cosPath d path in
      if \<not> append' then
        (case InitiateMultipartUpload (Client d) key' None s of
           (Fail None err, s1) \<Rightarrow> (Panics, s1)
         | (Fail (Some multi) err, s1) \<Rightarrow> (Returns (Inl err), s1)
         | (Ok multi, s1) \<Rightarrow> (Returns (Inr (newWriter d key' (upUploadID multi) [])), s1))
      else
        (case ListMultipartUploads (Client d) key' s of
           (Inl err, s1) \<Rightarrow> (Returns (Inl err), s1)
         | (Inr uploads, s1) \<Rightarrow>
             (case find (\<lambda>upload. \<not> key' \<noteq> upKey upload) uploads of
                None \<Rightarrow> (Returns (Inl (PathNotFoundError path)), s1)
              | Some upload \<Rightarrow>
                  (case ListParts (Client d) key' (upUploadID upload) s1 of
                     (Inl err, s2) \<Rightarrow> (Returns (Inl err), s2)
                   | (Inr parts', s2) \<Rightarrow>
                       (Returns (Inr (newWriter d key' (upUploadID upload) parts')), s2)))))"

text \<open>
  \<open>flushPart\<close>. The part recorded for an upload carries the entity tag and the part
  number; its \<open>Size\<close> stays the zero of a fresh \<open>cos.Object\<close>.
\<close>

definition flushPart :: "'s writer \<Rightarrow> 's \<Rightarrow> error option \<times> 's writer \<times> 's" where
  "flushPart w s =
     (if length (readyPart w) = 0 \<and> length (pendingPart w) = 0 then (None, w, s)
      else
        (let w1 = (if int (length (pendingPart w)) < ChunkSize (driver w)
                   then w\<lparr>readyPart := readyPart w @ pendingPart w, pendingPart := []\<rparr>
                   else w);
             partNumber = int (length (parts w1)) + 1
         in case UploadPart (Client (driver w1)) (key w1) (uploadID w1) partNumber
                   (readyPart w1) s of
              (Inl err, s1) \<Rightarrow> (Some err, w1, s1)
            | (Inr etag, s1) \<Rightarrow>
                (None,
                 w1\<lparr>parts := parts w1 @ [Object0\<lparr>ETag := etag, PartNumber := partNumber\<rparr>],
                    readyPart := pendingPart w1,
                    pendingPart := []\<rparr>,
                 s1)))"








subsection \<open>Requests, and a client that records them\<close>

datatype request =
    BucketGetReq BucketGetOptions
  | ListMultipartUploadsReq string
  | ObjectGetReq string "string option"
  | ObjectDeleteReq string
  | DeleteMultiReq "Object list"
  | ObjectCopyReq string string
  | InitiateMultipartUploadReq string "InitiateMultipartUploadOptions option"
  | ListPartsReq string string
  | UploadPartReq string string int bytes
  | UploadPartCopyReq string string string int "CopyPartHeaderOptions option"
  | CompleteMultipartUploadReq string string "Object list"
  | AbortMultipartUploadReq string string

text \<open>
  \<open>logged c\<close> behaves as the client \<open>c\<close> and appends every request it is sent to a log
  kept beside the store state.
\<close>

definition record_req ::
  "request \<Rightarrow> ('s \<Rightarrow> 'r \<times> 's) \<Rightarrow> 's \<times> request list \<Rightarrow> 'r \<times> 's \<times> request list" where
  "record_req req f sl = (case f (fst sl) of (r, s1) \<Rightarrow> (r, s1, snd sl @ [req]))"

definition logged :: "'s Client \<Rightarrow> ('s \<times> request list) Client" where
  "logged c =
     \<lparr>Host = Host c,
      BucketGet = (\<lambda>opt. record_req (BucketGetReq opt) (BucketGet c opt)),
      ListMultipartUploads =
        (\<lambda>pfx. record_req (ListMultipartUploadsReq pfx) (ListMultipartUploads c pfx)),
      ObjectGet = (\<lambda>k r. record_req (ObjectGetReq k r) (ObjectGet c k r)),
      ObjectDelete = (\<lambda>k. record_req (ObjectDeleteReq k) (ObjectDelete c k)),
      DeleteMulti = (\<lambda>objs. record_req (DeleteMultiReq objs) (DeleteMulti c objs)),
      ObjectCopy = (\<lambda>k src. record_req (ObjectCopyReq k src) (ObjectCopy c k src)),
      InitiateMultipartUpload =
        (\<lambda>k opt. record_req (InitiateMultipartUploadReq k opt)
                  (InitiateMultipartUpload c k opt)),
      ListParts = (\<lambda>k u. record_req (ListPartsReq k u) (ListParts c k u)),
      UploadPart = (\<lambda>k u n b. record_req (UploadPartReq k u n b) (UploadPart c k u n b)),
      UploadPartCopy =
        (\<lambda>k src u n opt. record_req (UploadPartCopyReq k src u n opt)
                          (UploadPartCopy c k src u n opt)),
      CompleteMultipartUpload =
        (\<lambda>k u ps. record_req (CompleteMultipartUploadReq k u ps)
                   (CompleteMultipartUpload c k u ps)),
      AbortMultipartUpload =
        (\<lambda>k u. record_req (AbortMultipartUploadReq k u) (AbortMultipartUpload c k u))\<rparr>"

text \<open>
  A client that answers from a script: each call takes the next response of the script when
  it is one for that call, and fails otherwise.
\<close>

datatype response =
    BucketGetResp "error + BucketGetResult"
  | UploadsResp "error + Upload list"
  | BodyResp "error + Body"
  | ErrResp "error option"
  | InitiateResp "Upload ptr_result"
  | PartsResp "error + Object list"
  | ETagResp "error + string"
  | PartResp "error + Object"

definition scripted :: "response list Client" where
  "scripted =
     \<lparr>Host = ''bucket.cos.example'',
      BucketGet = (\<lambda>opt s. case s of BucketGetResp r # rest \<Rightarrow> (r, rest)
                            | _ \<Rightarrow> (Inl (Remote ''script''), tl s)),
      ListMultipartUploads = (\<lambda>pfx s. case s of UploadsResp r # rest \<Rightarrow> (r, rest)
                            | _ \<Rightarrow> (Inl (Remote ''script''), tl s)),
      ObjectGet = (\<lambda>k r s. case s of BodyResp r # rest \<Rightarrow> (r, rest)
                            | _ \<Rightarrow> (Inl (Remote ''script''), tl s)),
      ObjectDelete = (\<lambda>k s. case s of ErrResp r # rest \<Rightarrow> (r, rest)
                            | _ \<Rightarrow> (Some (Remote ''script''), tl s)),
      DeleteMulti = (\<lambda>objs s. case s of ErrResp r # rest \<Rightarrow> (r, rest)
                            | _ \<Rightarrow> (Some (Remote ''script''), tl s)),
      ObjectCopy = (\<lambda>k src s. case s of ErrResp r # rest \<Rightarrow> (r, rest)
                            | _ \<Rightarrow> (Some (Remote ''script''), tl s)),
      InitiateMultipartUpload = (\<lambda>k opt s. case s of InitiateResp r # rest \<Rightarrow> (r, rest)
                            | _ \<Rightarrow> (Fail None (Remote ''script''), tl s)),
      ListParts = (\<lambda>k u s. case s of PartsResp r # rest \<Rightarrow> (r, rest)
                            | _ \<Rightarrow> (Inl (Remote ''script''), tl s)),
      UploadPart = (\<lambda>k u n b s. case s of ETagResp r # rest \<Rightarrow> (r, rest)
                            | _ \<Rightarrow> (Inl (Remote ''script''), tl s)),
      UploadPartCopy = (\<lambda>k src u n opt s. case s of PartResp r # rest \<Rightarrow> (r, rest)
                            | _ \<Rightarrow> (Inl (Remote ''script''), tl s)),
      CompleteMultipartUpload = (\<lambda>k u ps s. case s of ErrResp r # rest \<Rightarrow> (r, rest)
                            | _ \<Rightarrow> (Some (Remote ''script''), tl s)),
      AbortMultipartUpload = (\<lambda>k u s. case s of ErrResp r # rest \<Rightarrow> (r, rest)
                            | _ \<Rightarrow> (Some (Remote ''script''), tl s))\<rparr>"


declare deleteLoop.simps [code]


subsection \<open>A driver to run the operations on\<close>

text \<open>
  A driver as \<open>New\<close> builds it, over the scripted client with its requests recorded, with
  a chunk size of four bytes; a \<open>time.Parse\<close> that accepts one text; and a page of a
  listing with the given keys.
\<close>

definition demoParams :: DriverParameters where
  "demoParams =
     \<lparr>pSecretID = ''id'', pSecretKey = ''secret'', pBucket = ''registry'',
      pRegion = ''ap-guangzhou'', pSecure = False, pChunkSize = 4, pRootDirectory = []\<rparr>"

definition demoDriver :: "(response list \<times> request list) driver" where
  "demoDriver = New (logged scripted) demoParams"

definition demoParse :: "string \<Rightarrow> string \<Rightarrow> error + nat" where
  "demoParse layout t = (if t = ''2019-01-01T00:00:00Z'' then Inr 7 else Inl (Remote ''parse''))"

definition page :: "string list \<Rightarrow> response" where
  "page ks =
     BucketGetResp
       (Inr \<lparr>Contents = map (\<lambda>k. Object0\<lparr>Key := k\<rparr>) ks, CommonPrefixes = [],
             IsTruncated = False, NextMarker = []\<rparr>)"

subsection \<open>Sequences of calls on a writer\<close>






text \<open>The terminal flags of two writer states agree.\<close>

definition same_flags :: "'s writer \<Rightarrow> 's writer \<Rightarrow> bool" where
  "same_flags w w' \<longleftrightarrow>
     closed w' = closed w \<and> committed w' = committed w \<and> cancelled w' = cancelled w"

subsection \<open>The keys a Delete may take\<close>

text \<open>
  \<open>beyond pfx k\<close>: the key \<open>k\<close> is strictly longer than the prefix and its character at
  the length of the prefix is not a slash (the test of the inner loop of \<open>Delete\<close>).
  \<open>deletedKeys\<close>: the keys of the bulk-delete requests of a log.
\<close>

definition beyond :: "string \<Rightarrow> string \<Rightarrow> bool" where
  "beyond pfx k \<longleftrightarrow> length k > length pfx \<and> k ! length pfx \<noteq> CHR ''/''"

fun deletedKeys :: "request list \<Rightarrow> string list" where
  "deletedKeys [] = []"
| "deletedKeys (DeleteMultiReq objs # rs) = map Key objs @ deletedKeys rs"
| "deletedKeys (r # rs) = deletedKeys rs"

subsection \<open>The requests of a multipart copy\<close>





section \<open>Theorems\<close>

lemma TrimLeft_idem: "TrimLeft (TrimLeft s cs) cs = TrimLeft s cs"
  unfolding TrimLeft_def by (induction s) auto

text \<open>
  C9. The key of a path is the root directory without its trailing slashes, followed by
  the path, without the leading slashes of the whole; and for the root directory that
  \<open>New\<close> gives every driver (the empty string), mapping a key again leaves it unchanged.
\<close>

theorem cosPath_idempotent:
  "cosPath d p = TrimLeft (TrimRight (RootDirectory d) ''/'' @ p) ''/''
   \<and> cosPath (New client params) (cosPath (New client params) p)
       = cosPath (New client params) p"
  by (simp add: cosPath_def New_def TrimRight_def TrimLeft_idem)

subsection \<open>Stat\<close>

text \<open>
  C8. \<open>Stat\<close> lists the mapped path as a prefix with \<open>MaxKeys = 1\<close>. When the listing
  succeeds: if it has exactly one key and that key is the mapped path, the result is a file
  with the size of the listing entry and its modification time parsed with the layout
  \<open>RFC3339Nano\<close>, and a parse failure is the error of the call; otherwise, if it has
  exactly one key (a different one) or exactly one common prefix, the result is a
  directory; otherwise the path is not found.
\<close>

theorem Stat_cases:
  assumes "BucketGet (Client d)
             \<lparr>Prefix = cosPath d path, Delimiter = [], Marker = [], MaxKeys = 1\<rparr> s
           = (Inr r, s')"
  shows "Stat time_Parse d path s =
     (if length (Contents r) = 1 \<and> Key (hd (Contents r)) = cosPath d path then
        (case time_Parse RFC3339Nano (LastModified (hd (Contents r))) of
           Inl err \<Rightarrow> (Inl err, s')
         | Inr timestamp \<Rightarrow>
             (Inr \<lparr>fiPath = path, fiSize = Size (hd (Contents r)),
                   fiModTime = Some timestamp, fiIsDir = False\<rparr>, s'))
      else if length (Contents r) = 1 \<or> length (CommonPrefixes r) = 1 then
        (Inr \<lparr>fiPath = path, fiSize = 0, fiModTime = None, fiIsDir = True\<rparr>, s')
      else (Inl (PathNotFoundError path), s'))"
proof (cases "Contents r")
  case Nil
  with assms show ?thesis by (simp add: Stat_def Let_def)
next
  case (Cons k ks)
  with assms show ?thesis by (simp add: Stat_def Let_def split: sum.splits)
qed

theorem Stat_cases_witness:
  "Stat demoParse demoDriver ''/test''
     ([BucketGetResp
         (Inr \<lparr>Contents = [Object0\<lparr>Key := ''test'', Size := 8,
                                     LastModified := ''2019-01-01T00:00:00Z''\<rparr>],
               CommonPrefixes = [], IsTruncated = False, NextMarker = []\<rparr>)], [])
   = (Inr \<lparr>fiPath = ''/test'', fiSize = 8, fiModTime = Some 7, fiIsDir = False\<rparr>,
      [], [BucketGetReq \<lparr>Prefix = ''test'', Delimiter = [], Marker = [], MaxKeys = 1\<rparr>])"
  using Stat_cases [of demoDriver "''/test''"
      "([BucketGetResp
         (Inr \<lparr>Contents = [Object0\<lparr>Key := ''test'', Size := 8,
                                     LastModified := ''2019-01-01T00:00:00Z''\<rparr>],
               CommonPrefixes = [], IsTruncated = False, NextMarker = []\<rparr>)], [])"
      "\<lparr>Contents = [Object0\<lparr>Key := ''test'', Size := 8,
                                LastModified := ''2019-01-01T00:00:00Z''\<rparr>],
        CommonPrefixes = [], IsTruncated = False, NextMarker = []\<rparr>"
      "([], [BucketGetReq \<lparr>Prefix = ''test'', Delimiter = [], Marker = [], MaxKeys = 1\<rparr>])"
      demoParse]
  by (simp add: demoDriver_def demoParams_def demoParse_def New_def logged_def record_req_def scripted_def
        cosPath_def TrimLeft_def TrimRight_def Object0_def)

subsection \<open>Move\<close>

lemma Move_copy_failed:
  "copy time_Parse d (cosPath d sourcePath) (cosPath d destPath) s = (Returns (Some err), s1)
   \<Longrightarrow> Move time_Parse d sourcePath destPath s = (Returns None, s1)"
  by (simp add: Move_def)

text \<open>
  C3. \<open>Move\<close> of a source that does not exist: \<open>copy\<close> fails with \<open>PathNotFoundError\<close>,
  and \<open>Move\<close> returns \<open>nil\<close>, after the one listing request of \<open>Stat\<close> (no delete request
  follows; but the failure is not reported).
\<close>

theorem Move_swallows_copy_error:
  "copy demoParse demoDriver ''source'' ''dest'' ([page []], [])
     = (Returns (Some (PathNotFoundError ''source'')), [],
        [BucketGetReq \<lparr>Prefix = ''source'', Delimiter = [], Marker = [], MaxKeys = 1\<rparr>])
   \<and> Move demoParse demoDriver ''/source'' ''/dest'' ([page []], [])
     = (Returns None, [],
        [BucketGetReq \<lparr>Prefix = ''source'', Delimiter = [], Marker = [], MaxKeys = 1\<rparr>])"
  by code_simp

subsection \<open>Errors of the transport that are dropped\<close>

text \<open>
  C7. \<open>Delete\<close> of a path with one key, when the bulk delete fails: \<open>Delete\<close> returns
  \<open>nil\<close>. \<open>GetContent\<close> of an object whose body fails after three bytes: \<open>GetContent\<close>
  returns the three bytes and no error.
\<close>

theorem Delete_GetContent_swallow_errors:
  "Delete demoDriver ''/a'' ([page [''a''], ErrResp (Some (Remote ''boom''))], [])
     = Some (Returns None, [],
        [BucketGetReq \<lparr>Prefix = ''a'', Delimiter = [], Marker = [], MaxKeys = 1000\<rparr>,
         DeleteMultiReq [Object0\<lparr>Key := ''a''\<rparr>]])
   \<and> GetContent demoDriver ''/a''
        ([BodyResp (Inr \<lparr>readBytes = ''par'', readErr = Some (Remote ''reset'')\<rparr>)], [])
     = (Inr ''par'', [], [ObjectGetReq ''a'' None])"
  by code_simp

subsection \<open>Writer\<close>

text \<open>
  C10. \<open>Writer\<close> without \<open>append\<close>, when \<open>InitiateMultipartUpload\<close> returns an error and
  a \<open>nil\<close> result: the driver reads \<open>multi.UploadID\<close> before it looks at the error, and
  panics.
\<close>

theorem Writer_reads_UploadID_first:
  "(case Writer demoDriver ''/a'' False
           ([InitiateResp (Fail None (Remote ''refused''))], []) of
      (Panics, s) \<Rightarrow> Some s
    | (Returns r, s) \<Rightarrow> None)
   = Some ([], [InitiateMultipartUploadReq ''a'' None])"
  by code_simp

subsection \<open>flushPart\<close>

text \<open>
  C4. \<open>flushPart\<close> of a writer with two bytes ready and an empty parts list: the two bytes
  are uploaded as part 1, and the part recorded has the entity tag and the part number,
  and the size 0.
\<close>

theorem flushPart_records_no_size:
  "(case flushPart ((newWriter demoDriver ''a'' ''u1'' [])\<lparr>readyPart := ''ab''\<rparr>)
            ([ETagResp (Inr ''e1'')], []) of
      (err, w, s) \<Rightarrow> (err, parts w, readyPart w, pendingPart w, s))
   = (None, [Object0\<lparr>ETag := ''e1'', PartNumber := 1, Size := 0\<rparr>], [], [], [],
      [UploadPartReq ''a'' ''u1'' 1 ''ab''])"
  by code_simp

subsection \<open>The terminal states of the writer\<close>




lemma same_flags_trans: "same_flags a b \<Longrightarrow> same_flags b c \<Longrightarrow> same_flags a c"
  by (simp add: same_flags_def)











subsection \<open>Delete\<close>

lemma deletedKeys_append: "deletedKeys (a @ b) = deletedKeys a @ deletedKeys b"
  by (induction a rule: deletedKeys.induct) auto

lemma scanPage_spec:
  "index + length contents \<le> length objs \<Longrightarrow>
   \<exists>objs'. scanPage pfx contents index objs
             = Returns (index + length (takeWhile (\<lambda>k. \<not> beyond pfx (Key k)) contents), objs')
         \<and> length objs' = length objs
         \<and> take index objs' = take index objs
         \<and> map Key (drop index (take (index + length (takeWhile (\<lambda>k. \<not> beyond pfx (Key k)) contents)) objs'))
             = map Key (takeWhile (\<lambda>k. \<not> beyond pfx (Key k)) contents)"
proof (induction contents arbitrary: index objs)
  case Nil
  then show ?case by simp
next
  case (Cons k ks)
  show ?case
  proof (cases "beyond pfx (Key k)")
    case True
    then show ?thesis by (simp add: beyond_def)
  next
    case False
    let ?objs1 = "objs[index := (objs ! index)\<lparr>Key := Key k\<rparr>]"
    let ?m = "length (takeWhile (\<lambda>k. \<not> beyond pfx (Key k)) ks)"
    from Cons.prems have lt: "index < length objs" by simp
    from Cons.prems have "Suc index + length ks \<le> length ?objs1" by simp
    from Cons.IH[OF this] obtain objs' where
      s: "scanPage pfx ks (Suc index) ?objs1 = Returns (Suc index + ?m, objs')" and
      l: "length objs' = length objs" and
      t: "take (Suc index) objs' = take (Suc index) ?objs1" and
      d: "map Key (drop (Suc index) (take (Suc index + ?m) objs'))
            = map Key (takeWhile (\<lambda>k. \<not> beyond pfx (Key k)) ks)"
      by auto
    from t lt l have t0: "take index objs' = take index objs"
      by (metis Suc_leD le_refl take_Suc_conv_app_nth take_update_cancel butlast_snoc butlast_take length_list_update diff_Suc_1 less_imp_le_nat)
    from t lt l have n0: "objs' ! index = (objs ! index)\<lparr>Key := Key k\<rparr>"
      by (metis lessI nth_list_update_eq nth_take)
    have "drop index (take (Suc index + ?m) objs')
            = objs' ! index # drop (Suc index) (take (Suc index + ?m) objs')"
    proof -
      have "index < length (take (Suc index + ?m) objs')" using lt l by simp
      from Cons_nth_drop_Suc[OF this, symmetric] show ?thesis by simp
    qed
    with d n0 have dd: "map Key (drop index (take (Suc index + ?m) objs'))
         = Key k # map Key (takeWhile (\<lambda>k. \<not> beyond pfx (Key k)) ks)" by simp
    from False s l t0 dd lt show ?thesis
      by (auto simp: beyond_def)
  qed
qed

lemma scanPage_within:
  "scanPage pfx contents index objs = Returns (n, objs') \<Longrightarrow>
   \<forall>o' \<in> set (take index objs). \<not> beyond pfx (Key o') \<Longrightarrow>
   \<forall>o' \<in> set (take n objs'). \<not> beyond pfx (Key o')"
proof (induction pfx contents index objs rule: scanPage.induct)
  case (1 pfx index cosObjects)
  then show ?case by simp
next
  case (2 pfx k rest index cosObjects)
  show ?case
  proof (cases "length (Key k) > length pfx \<and> Key k ! length pfx \<noteq> CHR ''/''")
    case True
    with 2(2,3) show ?thesis by simp
  next
    case False
    with 2(2) have lt: "index < length cosObjects" by (auto split: if_splits)
    let ?objs1 = "cosObjects[index := (cosObjects ! index)\<lparr>Key := Key k\<rparr>]"
    from False 2(2) lt have s: "scanPage pfx rest (Suc index) ?objs1 = Returns (n, objs')"
      by (auto split: if_splits)
    have "take (Suc index) ?objs1 = take index cosObjects @ [(cosObjects ! index)\<lparr>Key := Key k\<rparr>]"
      using lt by (simp add: take_Suc_conv_app_nth)
    with 2(3) False have "\<forall>o' \<in> set (take (Suc index) ?objs1). \<not> beyond pfx (Key o')"
      by (auto simp: beyond_def)
    from 2(1)[OF False _ s this] lt show ?thesis by simp
  qed
qed

lemma logged_DeleteMulti:
  "DeleteMulti (logged c) objs (s, lg)
     = (case DeleteMulti c objs s of (r, s1) \<Rightarrow> (r, s1, lg @ [DeleteMultiReq objs]))"
  by (simp add: logged_def record_req_def)

lemma logged_BucketGet:
  "BucketGet (logged c) opt (s, lg)
     = (case BucketGet c opt s of (r, s1) \<Rightarrow> (r, s1, lg @ [BucketGetReq opt]))"
  by (simp add: logged_def record_req_def)

lemma deleteLoop_keys:
  assumes "deleteLoop d path contents objs st = Some res"
  shows "Client d = logged c \<longrightarrow>
         (\<forall>k \<in> set (deletedKeys (snd (snd res))).
            k \<in> set (deletedKeys (snd st)) \<or> \<not> beyond (cosPath d path) k)"
proof (rule deleteLoop.raw_induct
         [where P = "\<lambda>d path contents objs st res. Client d = logged c \<longrightarrow>
         (\<forall>k \<in> set (deletedKeys (snd (snd res))).
            k \<in> set (deletedKeys (snd st)) \<or> \<not> beyond (cosPath d path) k)", OF _ assms],
       goal_cases)
  case (1 loop d path contents objs st res)
  show ?case
  proof
    assume c: "Client d = logged c"
    obtain s lg where st: "st = (s, lg)" by (cases st)
    show "\<forall>k \<in> set (deletedKeys (snd (snd res))).
            k \<in> set (deletedKeys (snd st)) \<or> \<not> beyond (cosPath d path) k"
    proof (cases "length contents > 0")
      case False
      with 1(2) show ?thesis by auto
    next
      case True
      show ?thesis
      proof (cases "scanPage (cosPath d path) contents 0 objs")
        case Panics
        with 1(2) True show ?thesis by auto
      next
        case (Returns nb)
        obtain n objs' where nb: "nb = (n, objs')" by (cases nb)
        from scanPage_within[OF Returns[unfolded nb]]
        have w: "\<forall>o' \<in> set (take n objs'). \<not> beyond (cosPath d path) (Key o')" by simp
        obtain r s1 where dm: "DeleteMulti c (take n objs') s = (r, s1)"
          by (cases "DeleteMulti c (take n objs') s")
        let ?lg1 = "lg @ [DeleteMultiReq (take n objs')]"
        have k1: "\<forall>k \<in> set (deletedKeys ?lg1). k \<in> set (deletedKeys lg) \<or> \<not> beyond (cosPath d path) k"
          using w by (auto simp: deletedKeys_append)
        show ?thesis
        proof (cases "r = None \<and> \<not> n < length contents")
          case False
          with 1(2) True Returns nb c st dm k1 show ?thesis
            by (cases r) (auto simp: logged_DeleteMulti split: if_splits)
        next
          case go: True
          let ?opt = "\<lparr>Prefix = cosPath d path, Delimiter = [], Marker = [], MaxKeys = listMax\<rparr>"
          obtain r2 s2 where bg: "BucketGet c ?opt s1 = (r2, s2)"
            by (cases "BucketGet c ?opt s1")
          let ?lg2 = "?lg1 @ [BucketGetReq ?opt]"
          have k2: "deletedKeys ?lg2 = deletedKeys ?lg1" by (simp add: deletedKeys_append)
          show ?thesis
          proof (cases r2)
            case (Inl err)
            with 1(2) True Returns nb c st dm go bg k1 show ?thesis
              by (auto simp: logged_DeleteMulti logged_BucketGet deletedKeys_append)
          next
            case (Inr listResponse)
            with 1(2) True Returns nb c st dm go bg
            have "loop d path (Contents listResponse) objs' (s2, ?lg2) = Some res"
              by (auto simp: logged_DeleteMulti logged_BucketGet)
            from 1(1)[OF this] c k2 k1 show ?thesis
              unfolding st by (auto simp: deletedKeys_append)
          qed
        qed
      qed
    qed
  qed
qed

lemma Delete_keys:
  assumes "Delete dl path (s0, []) = Some (res, s', lg)" and "Client dl = logged c"
  shows "\<forall>k \<in> set (deletedKeys lg). \<not> beyond (cosPath dl path) k"
proof -
  let ?opt = "\<lparr>Prefix = cosPath dl path, Delimiter = [], Marker = [], MaxKeys = listMax\<rparr>"
  obtain r s1 where bg: "BucketGet c ?opt s0 = (r, s1)" by (cases "BucketGet c ?opt s0")
  show ?thesis
  proof (cases r)
    case (Inl err)
    with assms bg show ?thesis by (auto simp: Delete_def logged_BucketGet)
  next
    case (Inr listResponse)
    show ?thesis
    proof (cases "length (Contents listResponse) = 0")
      case True
      with assms bg Inr show ?thesis by (auto simp: Delete_def logged_BucketGet)
    next
      case False
      with assms bg Inr
      have "deleteLoop dl path (Contents listResponse) (replicate (nat listMax) Object0)
              (s1, [BucketGetReq ?opt]) = Some (res, s', lg)"
        by (auto simp: Delete_def logged_BucketGet)
      from deleteLoop_keys[OF this, of c] assms(2) show ?thesis by simp
    qed
  qed
qed

text \<open>
  C6. (1) On a page of at most \<open>listMax\<close> keys, the keys collected for the bulk delete are
  the keys before the first one that is \<open>beyond\<close> the mapped prefix. (2) When a page was
  cut short by such a key, \<open>Delete\<close> returns after the bulk delete of that page, in the
  store state that request left: no further page is fetched. (3) When the first listing
  has no key, \<open>Delete\<close> reports \<open>PathNotFoundError\<close>. (4) No key sent in any bulk-delete
  request of a \<open>Delete\<close> that returns is \<open>beyond\<close> the mapped prefix; (5) so deleting
  \<open>/a\<close> never asks for the deletion of the key of \<open>/ab\<close>.
\<close>

theorem Delete_boundary:
  "(length contents \<le> nat listMax \<longrightarrow>
      (\<exists>objs'. scanPage pfx contents 0 (replicate (nat listMax) Object0)
                  = Returns (length (takeWhile (\<lambda>k. \<not> beyond pfx k) (map Key contents)), objs')
        \<and> map Key (take (length (takeWhile (\<lambda>k. \<not> beyond pfx k) (map Key contents))) objs')
            = takeWhile (\<lambda>k. \<not> beyond pfx k) (map Key contents)))
   \<and> (scanPage (cosPath d path) contents 0 objs = Returns (n, objs1) \<and> n < length contents
        \<and> DeleteMulti (Client d) (take n objs1) s = (e, s1)
      \<longrightarrow> deleteLoop d path contents objs s = Some (Returns None, s1))
   \<and> (BucketGet (Client d)
          \<lparr>Prefix = cosPath d path, Delimiter = [], Marker = [], MaxKeys = listMax\<rparr> s
          = (Inr r, s1) \<and> length (Contents r) = 0
      \<longrightarrow> Delete d path s = Some (Returns (Some (PathNotFoundError path)), s1))
   \<and> (Client dl = logged c \<and> Delete dl path (s0, []) = Some (res, s', lg)
      \<longrightarrow> (\<forall>k \<in> set (deletedKeys lg). \<not> beyond (cosPath dl path) k))
   \<and> (Delete (New (logged c) params) ''/a'' (s0, []) = Some (res, s', lg)
      \<longrightarrow> ''ab'' \<notin> set (deletedKeys lg))"
proof (intro conjI impI)
  assume "length contents \<le> nat listMax"
  then have "0 + length contents \<le> length (replicate (nat listMax) Object0)" by simp
  from scanPage_spec[OF this, of pfx]
  show "\<exists>objs'. scanPage pfx contents 0 (replicate (nat listMax) Object0)
                  = Returns (length (takeWhile (\<lambda>k. \<not> beyond pfx k) (map Key contents)), objs')
        \<and> map Key (take (length (takeWhile (\<lambda>k. \<not> beyond pfx k) (map Key contents))) objs')
            = takeWhile (\<lambda>k. \<not> beyond pfx k) (map Key contents)"
    by (auto simp: takeWhile_map comp_def)
next
  assume "scanPage (cosPath d path) contents 0 objs = Returns (n, objs1) \<and> n < length contents
        \<and> DeleteMulti (Client d) (take n objs1) s = (e, s1)"
  then show "deleteLoop d path contents objs s = Some (Returns None, s1)"
    by (subst deleteLoop.simps) (cases e; auto)
next
  assume "BucketGet (Client d)
          \<lparr>Prefix = cosPath d path, Delimiter = [], Marker = [], MaxKeys = listMax\<rparr> s
          = (Inr r, s1) \<and> length (Contents r) = 0"
  then show "Delete d path s = Some (Returns (Some (PathNotFoundError path)), s1)"
    by (simp add: Delete_def)
next
  assume "Client dl = logged c \<and> Delete dl path (s0, []) = Some (res, s', lg)"
  then have a: "Delete dl path (s0, []) = Some (res, s', lg)" and b: "Client dl = logged c"
    by simp_all
  from Delete_keys[OF a b]
  show "\<forall>k \<in> set (deletedKeys lg). \<not> beyond (cosPath dl path) k" .
next
  assume a: "Delete (New (logged c) params) ''/a'' (s0, []) = Some (res, s', lg)"
  have "Client (New (logged c) params) = logged c" by (simp add: New_def)
  from Delete_keys[OF a this]
  have "\<not> beyond (cosPath (New (logged c) params) ''/a'') ''ab'' \<or> ''ab'' \<notin> set (deletedKeys lg)"
    by blast
  then show "''ab'' \<notin> set (deletedKeys lg)"
    by (simp add: beyond_def cosPath_def New_def TrimLeft_def TrimRight_def)
qed

theorem Delete_boundary_witness:
  "(\<exists>objs'. scanPage ''a'' (map (\<lambda>k. Object0\<lparr>Key := k\<rparr>) [''a'', ''a/b'', ''ab'', ''a/c''])
                0 (replicate (nat listMax) Object0) = Returns (2, objs')
             \<and> map Key (take 2 objs') = [''a'', ''a/b''])
   \<and> deleteLoop demoDriver ''/a'' (map (\<lambda>k. Object0\<lparr>Key := k\<rparr>) [''a'', ''a/b'', ''ab'', ''a/c''])
        (replicate 3 Object0) ([ErrResp None], [])
      = Some (Returns None, [],
              [DeleteMultiReq [Object0\<lparr>Key := ''a''\<rparr>, Object0\<lparr>Key := ''a/b''\<rparr>]])
   \<and> Delete demoDriver ''/a'' ([page []], [])
      = Some (Returns (Some (PathNotFoundError ''/a'')), [],
              [BucketGetReq \<lparr>Prefix = ''a'', Delimiter = [], Marker = [], MaxKeys = 1000\<rparr>])
   \<and> Delete demoDriver ''/a'' ([page [''a'', ''a/b'', ''ab'', ''a/c''], ErrResp None], [])
      = Some (Returns None, [],
              [BucketGetReq \<lparr>Prefix = ''a'', Delimiter = [], Marker = [], MaxKeys = 1000\<rparr>,
               DeleteMultiReq [Object0\<lparr>Key := ''a''\<rparr>, Object0\<lparr>Key := ''a/b''\<rparr>]])
   \<and> ''ab'' \<notin> set (deletedKeys
              [BucketGetReq \<lparr>Prefix = ''a'', Delimiter = [], Marker = [], MaxKeys = 1000\<rparr>,
               DeleteMultiReq [Object0\<lparr>Key := ''a''\<rparr>, Object0\<lparr>Key := ''a/b''\<rparr>]])"
proof -
  let ?contents = "map (\<lambda>k. Object0\<lparr>Key := k\<rparr>) [''a'', ''a/b'', ''ab'', ''a/c'']"
  let ?objs1 = "[Object0\<lparr>Key := ''a''\<rparr>, Object0\<lparr>Key := ''a/b''\<rparr>, Object0]"
  let ?lg1 = "[DeleteMultiReq [Object0\<lparr>Key := ''a''\<rparr>, Object0\<lparr>Key := ''a/b''\<rparr>]]"
  let ?bg = "BucketGetReq \<lparr>Prefix = ''a'', Delimiter = [], Marker = [], MaxKeys = 1000\<rparr>"
  let ?r0 = "\<lparr>Contents = [], CommonPrefixes = [], IsTruncated = False, NextMarker = []\<rparr>"
  have h1: "length ?contents \<le> nat listMax" by (simp add: listMax_def)
  have k: "takeWhile (\<lambda>k. \<not> beyond ''a'' k) (map Key ?contents) = [''a'', ''a/b'']"
    by (simp add: beyond_def Object0_def)
  have l2: "length [''a'', ''a/b''] = (2::nat)" by simp
  have h2: "scanPage (cosPath demoDriver ''/a'') ?contents 0 (replicate 3 Object0)
              = Returns (2, ?objs1)
            \<and> 2 < length ?contents
            \<and> DeleteMulti (Client demoDriver) (take 2 ?objs1) ([ErrResp None], [])
               = (None, [], ?lg1)"
    by code_simp
  have h3: "BucketGet (Client demoDriver)
          \<lparr>Prefix = cosPath demoDriver ''/a'', Delimiter = [], Marker = [], MaxKeys = listMax\<rparr>
          ([page []], []) = (Inr ?r0, [], [?bg])
          \<and> length (Contents ?r0) = 0"
    by code_simp
  have h4: "Delete demoDriver ''/a'' ([page [''a'', ''a/b'', ''ab'', ''a/c''], ErrResp None], [])
      = Some (Returns None, [], ?bg # ?lg1)"
    by code_simp
  have h5: "demoDriver = New (logged scripted) demoParams"
    by (simp add: demoDriver_def)
  note D1 = Delete_boundary[where contents = ?contents and pfx = "''a''" and d = demoDriver
        and path = "''/a''" and objs = "replicate 3 Object0" and n = 2
        and ?objs1.0 = ?objs1 and s = "([ErrResp None], [])" and e = None
        and ?s1.0 = "([], ?lg1)"]
  note D2 = Delete_boundary[where d = demoDriver and path = "''/a''" and s = "([page []], [])"
        and r = ?r0 and ?s1.0 = "([], [?bg])"]
  note D3 = Delete_boundary[where c = scripted and params = demoParams
        and ?s0.0 = "[page [''a'', ''a/b'', ''ab'', ''a/c''], ErrResp None]"
        and res = "Returns None" and s' = "[]" and lg = "?bg # ?lg1"]
  have c1: "\<exists>objs'. scanPage ''a'' ?contents 0 (replicate (nat listMax) Object0) = Returns (2, objs')
             \<and> map Key (take 2 objs') = [''a'', ''a/b'']"
    using D1[THEN conjunct1, rule_format, OF h1, unfolded k l2] .
  have c2: "deleteLoop demoDriver ''/a'' ?contents (replicate 3 Object0) ([ErrResp None], [])
      = Some (Returns None, [], ?lg1)"
    using D1[THEN conjunct2, THEN conjunct1, rule_format, OF h2] .
  have c3: "Delete demoDriver ''/a'' ([page []], [])
      = Some (Returns (Some (PathNotFoundError ''/a'')), [], [?bg])"
    using D2[THEN conjunct2, THEN conjunct2, THEN conjunct1, rule_format, OF h3] .
  have c5: "''ab'' \<notin> set (deletedKeys (?bg # ?lg1))"
    using D3[THEN conjunct2, THEN conjunct2, THEN conjunct2, THEN conjunct2, rule_format,
             OF h4[unfolded h5]] .
  from c1 c2 c3 h4 c5 show ?thesis by blast
qed

subsection \<open>copy\<close>











end
